theory Spec2Isabelle
  imports Complex_Main
begin

section \<open>Shared conventions\<close>

text \<open>
  Python values are embedded as follows. A \<^verbatim>\<open>datetime\<close> is the number of microseconds
  on the clock that produced it (\<^verbatim>\<open>datetime\<close> has microsecond resolution), so a
  \<^verbatim>\<open>timedelta\<close> is a difference of such numbers. Python's unbounded \<^verbatim>\<open>int\<close> is
  \<^typ>\<open>int\<close>. A finite \<^verbatim>\<open>float\<close> is the rational number it denotes; the only float
  operations the embedded functions perform are comparisons against constants that are
  exactly representable and one final division \<^verbatim>\<open>sum(xs) / len(xs)\<close> of integers, which
  is embedded as the exact quotient. \<^verbatim>\<open>Optional[T]\<close> is \<^typ>\<open>'a option\<close> with
  \<^verbatim>\<open>None\<close> as \<^term>\<open>None\<close>.
\<close>

type_synonym datetime = int

definition seconds :: "int \<Rightarrow> int" where
  "seconds n = n * 1000000"

definition minutes :: "int \<Rightarrow> int" where
  "minutes n = seconds (60 * n)"

text \<open>Python's \<^verbatim>\<open>max\<close> and \<^verbatim>\<open>min\<close> of a list; every caller below guards the call
  with a test that the list is not empty (on an empty list Python raises).\<close>

fun py_max :: "int list \<Rightarrow> int" where
  "py_max (x # xs) = foldl max x xs"

fun py_min :: "int list \<Rightarrow> int" where
  "py_min (x # xs) = foldl min x xs"

text \<open>\<^verbatim>\<open>sum(xs) / len(xs)\<close>, Python's true division of two integers.\<close>

definition py_mean :: "int list \<Rightarrow> rat" where
  "py_mean xs = of_int (sum_list xs) / of_int (int (length xs))"

text \<open>Truthiness of an \<^verbatim>\<open>Optional[int]\<close> in a condition such as \<^verbatim>\<open>if p.delay:\<close>:
  \<^verbatim>\<open>None\<close> and \<^verbatim>\<open>0\<close> are both falsy.\<close>

fun truthy_int :: "int option \<Rightarrow> bool" where
  "truthy_int None = False"
| "truthy_int (Some n) = (n \<noteq> 0)"

text \<open>Truthiness of an \<^verbatim>\<open>Optional[str]\<close>: \<^verbatim>\<open>None\<close> and the empty string are falsy.\<close>

fun truthy_str :: "string option \<Rightarrow> bool" where
  "truthy_str None = False"
| "truthy_str (Some s) = (s \<noteq> [])"

section \<open>Transit records (\<^verbatim>\<open>models/transit.py\<close>)\<close>

text \<open>The fields of the pydantic models that the embedded functions read. A
  \<^verbatim>\<open>datetime\<close> field that an embedded function subtracts from an aware clock reading
  carries a flag saying whether the value has a \<^verbatim>\<open>tzinfo\<close>.\<close>

record Prediction =
  prediction_id :: string
  p_trip_id :: string
  p_stop_id :: string
  p_route_id :: string
  arrival_time :: "datetime option"
  departure_time :: "datetime option"
  schedule_relationship :: "string option"
  p_vehicle_id :: "string option"
  vehicle_label :: "string option"
  p_status :: "string option"
  p_delay :: "int option"

record VehiclePosition =
  v_vehicle_id :: string
  v_trip_id :: "string option"
  v_route_id :: "string option"
  latitude :: rat
  longitude :: rat
  bearing :: "rat option"
  speed :: "rat option"
  v_timestamp :: datetime
  v_timestamp_aware :: bool

record TripUpdate =
  t_trip_id :: string
  t_vehicle_id :: "string option"
  t_route_id :: "string option"
  t_timestamp :: datetime
  t_delay :: "int option"

record Alert =
  alert_id :: string
  alert_header_text :: "string option"
  effective_start_date :: "datetime option"
  effective_end_date :: "datetime option"
  affected_routes :: "string list"
  affected_stops :: "string list"
  affected_trips :: "string list"
  alert_severity_level :: "string option"

record Route =
  r_route_id :: string
  route_name :: string
  route_type :: int

record Stop =
  s_stop_id :: string
  stop_name :: string
  stop_lat :: "rat option"
  stop_lon :: "rat option"
  wheelchair_boarding :: "int option"

record Trip =
  tr_trip_id :: string
  tr_route_id :: string
  service_id :: "string option"

text \<open>A value handed to the aggregator or to storage; \<^verbatim>\<open>isinstance\<close> dispatch and
  \<^verbatim>\<open>type(data).__name__\<close> become a case distinction. \<open>OtherData\<close> stands for a value of
  any other class, with its class name.\<close>

datatype transit_data =
    PredictionData Prediction
  | VehiclePositionData VehiclePosition
  | TripUpdateData TripUpdate
  | AlertData Alert
  | RouteData Route
  | StopData Stop
  | TripData Trip
  | OtherData string

fun type_name :: "transit_data \<Rightarrow> string" where
  "type_name (PredictionData _) = ''Prediction''"
| "type_name (VehiclePositionData _) = ''VehiclePosition''"
| "type_name (TripUpdateData _) = ''TripUpdate''"
| "type_name (AlertData _) = ''Alert''"
| "type_name (RouteData _) = ''Route''"
| "type_name (StopData _) = ''Stop''"
| "type_name (TripData _) = ''Trip''"
| "type_name (OtherData n) = n"

section \<open>Analytics: overall service status (\<^verbatim>\<open>processing/analytics.py\<close>)\<close>

record PerformanceMetrics =
  on_time_percentage :: rat
  average_delay :: rat
  delay_std_dev :: rat
  total_trips :: int
  delayed_trips :: int
  severely_delayed_trips :: int

record AnomalyDetection =
  anomaly_type :: string
  severity :: string
  description :: string
  an_affected_routes :: "string list"
  an_affected_stops :: "string list"
  confidence_score :: rat

text \<open>\<^verbatim>\<open>service_health\<close> is a dictionary; the function reads one key with
  \<^verbatim>\<open>service_health.get('total_alerts', 0)\<close>.\<close>

definition dict_get :: "(string \<rightharpoonup> int) \<Rightarrow> string \<Rightarrow> int \<Rightarrow> int" where
  "dict_get d k dflt = (case d k of None \<Rightarrow> dflt | Some v \<Rightarrow> v)"

definition calculate_overall_status ::
  "PerformanceMetrics \<Rightarrow> AnomalyDetection list \<Rightarrow> (string \<rightharpoonup> int) \<Rightarrow> string" where
  "calculate_overall_status performance anomalies service_health =
     (let score0 = (100::int);
          score1 = (if on_time_percentage performance < 80 then score0 - 20
                    else if on_time_percentage performance < 90 then score0 - 10
                    else score0);
          high_severity_anomalies = int (length (filter (\<lambda>a. severity a = ''high'') anomalies));
          score2 = score1 - high_severity_anomalies * 15;
          score3 = (if dict_get service_health ''total_alerts'' 0 > 5 then score2 - 10 else score2)
      in if score3 \<ge> 80 then ''excellent''
         else if score3 \<ge> 60 then ''good''
         else if score3 \<ge> 40 then ''fair''
         else ''poor'')"

text \<open>The scoring rule as the specification words it: a score computed from three
  independent deductions, then mapped to a label.\<close>

definition spec_score :: "rat \<Rightarrow> nat \<Rightarrow> int \<Rightarrow> int" where
  "spec_score on_time n_high total_alerts =
     100 - (if on_time < 80 then 20 else if on_time < 90 then 10 else 0)
         - 15 * int n_high
         - (if total_alerts > 5 then 10 else 0)"

definition spec_label :: "int \<Rightarrow> string" where
  "spec_label score =
     (if score \<ge> 80 then ''excellent''
      else if score \<ge> 60 then ''good''
      else if score \<ge> 40 then ''fair''
      else ''poor'')"

definition count_high :: "AnomalyDetection list \<Rightarrow> nat" where
  "count_high anomalies = length (filter (\<lambda>a. severity a = ''high'') anomalies)"

section \<open>Aggregator (\<^verbatim>\<open>processing/aggregator.py\<close>)\<close>

text \<open>\<^verbatim>\<open>self.aggregations\<close> is a \<^verbatim>\<open>defaultdict(list)\<close> keyed by class name. Reading with
  \<^verbatim>\<open>.get(name, [])\<close> yields the empty list for a missing key; \<^verbatim>\<open>process\<close> appends under
  the class name of the value. \<^verbatim>\<open>summary_stats\<close> keeps a count and the first and last
  processing times per class name.\<close>

record summary_stat =
  ss_count :: nat
  first_seen :: datetime
  last_seen :: datetime

record DataAggregator =
  aggregations :: "string \<rightharpoonup> transit_data list"
  summary_stats :: "string \<rightharpoonup> summary_stat"

definition new_aggregator :: DataAggregator where
  "new_aggregator = \<lparr>aggregations = Map.empty, summary_stats = Map.empty\<rparr>"

definition agg_get :: "DataAggregator \<Rightarrow> string \<Rightarrow> transit_data list" where
  "agg_get agg k = (case aggregations agg k of None \<Rightarrow> [] | Some xs \<Rightarrow> xs)"

definition update_summary_stats ::
  "datetime \<Rightarrow> string \<Rightarrow> (string \<rightharpoonup> summary_stat) \<Rightarrow> (string \<rightharpoonup> summary_stat)" where
  "update_summary_stats now data_type st =
     (let s = (case st data_type of
                 None \<Rightarrow> \<lparr>ss_count = 0, first_seen = now, last_seen = now\<rparr>
               | Some s \<Rightarrow> s)
      in st(data_type \<mapsto> s\<lparr>ss_count := ss_count s + 1, last_seen := now\<rparr>))"

definition process :: "datetime \<Rightarrow> DataAggregator \<Rightarrow> transit_data \<Rightarrow> DataAggregator" where
  "process now agg d =
     (let data_type = type_name d
      in \<lparr>aggregations = (aggregations agg)(data_type \<mapsto> agg_get agg data_type @ [d]),
          summary_stats = update_summary_stats now data_type (summary_stats agg)\<rparr>)"

text \<open>The typed views \<^verbatim>\<open>self.aggregations.get("Prediction", [])\<close> and so on: the values
  stored under a class name are the values of that class.\<close>

fun predictions_in :: "transit_data list \<Rightarrow> Prediction list" where
  "predictions_in [] = []"
| "predictions_in (PredictionData p # ds) = p # predictions_in ds"
| "predictions_in (_ # ds) = predictions_in ds"

fun positions_in :: "transit_data list \<Rightarrow> VehiclePosition list" where
  "positions_in [] = []"
| "positions_in (VehiclePositionData p # ds) = p # positions_in ds"
| "positions_in (_ # ds) = positions_in ds"

fun alerts_in :: "transit_data list \<Rightarrow> Alert list" where
  "alerts_in [] = []"
| "alerts_in (AlertData a # ds) = a # alerts_in ds"
| "alerts_in (_ # ds) = alerts_in ds"

definition agg_predictions :: "DataAggregator \<Rightarrow> Prediction list" where
  "agg_predictions agg = predictions_in (agg_get agg ''Prediction'')"

definition agg_positions :: "DataAggregator \<Rightarrow> VehiclePosition list" where
  "agg_positions agg = positions_in (agg_get agg ''VehiclePosition'')"

definition agg_alerts :: "DataAggregator \<Rightarrow> Alert list" where
  "agg_alerts agg = alerts_in (agg_get agg ''Alert'')"

subsection \<open>\<^verbatim>\<open>_get_performance_metrics\<close>\<close>




subsection \<open>\<^verbatim>\<open>get_route_summary\<close> and \<^verbatim>\<open>get_stop_summary\<close>\<close>

text \<open>\<^verbatim>\<open>route_stats\<close> is a \<^verbatim>\<open>defaultdict\<close> whose default entry has zero counts and an
  empty \<^verbatim>\<open>delays\<close> list; indexing a missing key creates that entry. The stop summary uses
  the same shape without the vehicle-position count, which stays 0 here.\<close>

record entity_stats =
  es_predictions :: nat
  es_delays :: "int list"
  es_vehicle_positions :: nat
  es_alerts :: nat

record entity_summary =
  sm_predictions :: nat
  sm_delays :: "int list"
  sm_vehicle_positions :: nat
  sm_alerts :: nat
  sm_avg_delay :: rat
  sm_max_delay :: int
  sm_min_delay :: int

definition default_stats :: entity_stats where
  "default_stats = \<lparr>es_predictions = 0, es_delays = [], es_vehicle_positions = 0, es_alerts = 0\<rparr>"

definition stats_at :: "(string \<rightharpoonup> entity_stats) \<Rightarrow> string \<Rightarrow> entity_stats" where
  "stats_at m k = (case m k of None \<Rightarrow> default_stats | Some s \<Rightarrow> s)"

definition add_prediction :: "string \<Rightarrow> int option \<Rightarrow> (string \<rightharpoonup> entity_stats) \<Rightarrow> (string \<rightharpoonup> entity_stats)" where
  "add_prediction k delay m =
     (let m1 = m(k \<mapsto> (stats_at m k)\<lparr>es_predictions := es_predictions (stats_at m k) + 1\<rparr>)
      in if truthy_int delay
         then m1(k \<mapsto> (stats_at m1 k)\<lparr>es_delays := es_delays (stats_at m1 k) @ [the delay]\<rparr>)
         else m1)"

definition add_position :: "string option \<Rightarrow> (string \<rightharpoonup> entity_stats) \<Rightarrow> (string \<rightharpoonup> entity_stats)" where
  "add_position route m =
     (if truthy_str route
      then m(the route \<mapsto> (stats_at m (the route))
               \<lparr>es_vehicle_positions := es_vehicle_positions (stats_at m (the route)) + 1\<rparr>)
      else m)"

definition add_alert :: "string \<Rightarrow> (string \<rightharpoonup> entity_stats) \<Rightarrow> (string \<rightharpoonup> entity_stats)" where
  "add_alert k m = m(k \<mapsto> (stats_at m k)\<lparr>es_alerts := es_alerts (stats_at m k) + 1\<rparr>)"

definition calculate_averages :: "entity_stats \<Rightarrow> entity_summary" where
  "calculate_averages s =
     (if es_delays s \<noteq> []
      then \<lparr>sm_predictions = es_predictions s, sm_delays = es_delays s,
            sm_vehicle_positions = es_vehicle_positions s, sm_alerts = es_alerts s,
            sm_avg_delay = py_mean (es_delays s), sm_max_delay = py_max (es_delays s),
            sm_min_delay = py_min (es_delays s)\<rparr>
      else \<lparr>sm_predictions = es_predictions s, sm_delays = es_delays s,
            sm_vehicle_positions = es_vehicle_positions s, sm_alerts = es_alerts s,
            sm_avg_delay = 0, sm_max_delay = 0, sm_min_delay = 0\<rparr>)"

definition route_stats :: "DataAggregator \<Rightarrow> (string \<rightharpoonup> entity_stats)" where
  "route_stats agg =
     (let m1 = fold (\<lambda>p. add_prediction (p_route_id p) (p_delay p)) (agg_predictions agg) Map.empty;
          m2 = fold (\<lambda>v. add_position (v_route_id v)) (agg_positions agg) m1;
          m3 = fold (\<lambda>a. fold add_alert (affected_routes a)) (agg_alerts agg) m2
      in m3)"

definition get_route_summary :: "DataAggregator \<Rightarrow> (string \<rightharpoonup> entity_summary)" where
  "get_route_summary agg = map_option calculate_averages \<circ> route_stats agg"

definition stop_stats :: "DataAggregator \<Rightarrow> (string \<rightharpoonup> entity_stats)" where
  "stop_stats agg =
     (let m1 = fold (\<lambda>p. add_prediction (p_stop_id p) (p_delay p)) (agg_predictions agg) Map.empty;
          m2 = fold (\<lambda>a. fold add_alert (affected_stops a)) (agg_alerts agg) m1
      in m2)"

definition get_stop_summary :: "DataAggregator \<Rightarrow> (string \<rightharpoonup> entity_summary)" where
  "get_stop_summary agg = map_option calculate_averages \<circ> stop_stats agg"

text \<open>The delays that reach a summary's \<^verbatim>\<open>delays\<close> list, as the claim words it: those
  that are neither \<^verbatim>\<open>None\<close> nor zero.\<close>

definition nonzero_delays :: "Prediction list \<Rightarrow> int list" where
  "nonzero_delays ps =
     map (\<lambda>p. the (p_delay p)) (filter (\<lambda>p. p_delay p \<noteq> None \<and> p_delay p \<noteq> Some 0) ps)"

section \<open>Coordinate validation\<close>

datatype py_exn = ValueError | TypeError | IndexError

subsection \<open>Field validators of \<^verbatim>\<open>VehiclePosition\<close> (\<^verbatim>\<open>models/transit.py\<close>)\<close>

text \<open>The pydantic validators run when a \<^verbatim>\<open>VehiclePosition\<close> is constructed; they raise
  \<^verbatim>\<open>ValueError\<close> outside the globe's ranges and return the value otherwise.\<close>

definition validate_latitude :: "rat \<Rightarrow> py_exn + rat" where
  "validate_latitude v = (if \<not> (-90 \<le> v \<and> v \<le> 90) then Inl ValueError else Inr v)"

definition validate_longitude :: "rat \<Rightarrow> py_exn + rat" where
  "validate_longitude v = (if \<not> (-180 \<le> v \<and> v \<le> 180) then Inl ValueError else Inr v)"

subsection \<open>\<^verbatim>\<open>DataValidator\<close> (\<^verbatim>\<open>processing/validator.py\<close>)\<close>

record coordinate_bounds =
  lat_min :: rat
  lat_max :: rat
  lon_min :: rat
  lon_max :: rat

text \<open>The entries of \<^verbatim>\<open>_setup_validation_rules\<close> for stops and vehicle positions.\<close>

definition stop_coordinate_bounds :: coordinate_bounds where
  "stop_coordinate_bounds =
     \<lparr>lat_min = 42, lat_max = 43, lon_min = - (715 / 10), lon_max = - (705 / 10)\<rparr>"

definition vehicle_position_coordinate_bounds :: coordinate_bounds where
  "vehicle_position_coordinate_bounds =
     \<lparr>lat_min = 42, lat_max = 43, lon_min = - (715 / 10), lon_max = - (705 / 10)\<rparr>"

definition vehicle_position_speed_bounds :: "rat \<times> rat" where
  "vehicle_position_speed_bounds = (0, 50)"

definition vehicle_position_max_age :: int where
  "vehicle_position_max_age = minutes 30"

definition validate_coordinates :: "rat \<Rightarrow> rat \<Rightarrow> coordinate_bounds \<Rightarrow> bool" where
  "validate_coordinates lat lon bounds =
     ((lat_min bounds \<le> lat \<and> lat \<le> lat_max bounds) \<and>
      (lon_min bounds \<le> lon \<and> lon \<le> lon_max bounds))"

definition validate_range :: "rat \<Rightarrow> rat \<times> rat \<Rightarrow> bool" where
  "validate_range v bounds = (fst bounds \<le> v \<and> v \<le> snd bounds)"

text \<open>\<^verbatim>\<open>_check_required_fields\<close> rejects a field that is \<^verbatim>\<open>None\<close> or a string that is
  empty after \<^verbatim>\<open>strip()\<close>. The required non-string fields of the two records below are
  not optional in their models, so only the string fields can fail. \<open>py_isspace\<close> lists
  the ASCII characters that \<^verbatim>\<open>strip()\<close> removes.\<close>

definition py_isspace :: "char \<Rightarrow> bool" where
  "py_isspace c = ((of_char c :: nat) \<in> {9, 10, 11, 12, 13, 28, 29, 30, 31, 32})"

definition blank :: "string \<Rightarrow> bool" where
  "blank s = list_all py_isspace s"

text \<open>\<^verbatim>\<open>_validate_timestamp_age\<close> reads an aware clock (\<^verbatim>\<open>timezone.utc\<close> when the timestamp
  has no \<^verbatim>\<open>tzinfo\<close>); subtracting a naive timestamp from it raises \<^verbatim>\<open>TypeError\<close>.\<close>

definition validate_timestamp_age :: "datetime \<Rightarrow> datetime \<Rightarrow> bool \<Rightarrow> int \<Rightarrow> py_exn + bool" where
  "validate_timestamp_age now ts aware max_age =
     (if \<not> aware then Inl TypeError else Inr (now - ts \<le> max_age))"

text \<open>\<^verbatim>\<open>_validate_vehicle_position\<close>: \<open>Inr None\<close> is the rejection \<^verbatim>\<open>return None\<close>,
  \<open>Inr (Some p)\<close> the accepted record, \<open>Inl e\<close> an exception, which the calling
  \<^verbatim>\<open>process\<close> catches and turns into \<^verbatim>\<open>None\<close>.\<close>

definition validate_vehicle_position :: "datetime \<Rightarrow> VehiclePosition \<Rightarrow> py_exn + VehiclePosition option" where
  "validate_vehicle_position now position =
     (if blank (v_vehicle_id position) then Inr None
      else if \<not> validate_coordinates (latitude position) (longitude position)
                  vehicle_position_coordinate_bounds then Inr None
      else if speed position \<noteq> None \<and>
              \<not> validate_range (the (speed position)) vehicle_position_speed_bounds then Inr None
      else (case validate_timestamp_age now (v_timestamp position) (v_timestamp_aware position)
                   vehicle_position_max_age of
              Inl e \<Rightarrow> Inl e
            | Inr fresh \<Rightarrow>
                if \<not> fresh then Inr None
                else if bearing position \<noteq> None \<and> \<not> validate_range (the (bearing position)) (0, 360)
                then Inr None
                else Inr (Some position)))"

definition validate_stop :: "Stop \<Rightarrow> Stop option" where
  "validate_stop stop =
     (if blank (s_stop_id stop) \<or> blank (stop_name stop) then None
      else if stop_lat stop \<noteq> None \<and> stop_lon stop \<noteq> None \<and>
              \<not> validate_coordinates (the (stop_lat stop)) (the (stop_lon stop)) stop_coordinate_bounds
      then None
      else if wheelchair_boarding stop \<noteq> None \<and> the (wheelchair_boarding stop) \<notin> {0, 1, 2}
      then None
      else Some stop)"

text \<open>The two coordinate regions in question: the globe, which the claim names, and the
  service-area box of the validation rules.\<close>

definition in_globe :: "rat \<Rightarrow> rat \<Rightarrow> bool" where
  "in_globe lat lon = (-90 \<le> lat \<and> lat \<le> 90 \<and> -180 \<le> lon \<and> lon \<le> 180)"

definition in_service_area :: "rat \<Rightarrow> rat \<Rightarrow> bool" where
  "in_service_area lat lon = (42 \<le> lat \<and> lat \<le> 43 \<and> - (143 / 2) \<le> lon \<and> lon \<le> - (141 / 2))"

section \<open>Trip updates of the GTFS-RT feed (\<^verbatim>\<open>ingestion/gtfs_rt_ingestor.py\<close>)\<close>

text \<open>A decoded feed. An optional protobuf field is an option, \<^verbatim>\<open>HasField\<close> its
  presence test. The dictionary that \<^verbatim>\<open>_parse_trip_updates\<close> builds for an arrival or a
  departure has the two keys \<^verbatim>\<open>delay\<close> and \<^verbatim>\<open>time\<close>, each \<^verbatim>\<open>None\<close> when the field is
  absent, and the dictionary of a stop-time update has the key \<^verbatim>\<open>arrival\<close> or
  \<^verbatim>\<open>departure\<close> exactly when the message has the field: the same shape as the message,
  so one record type serves for both. The function also records the feed's header
  timestamp and version in the ingestor; that is not part of its result.\<close>

record StopTimeEvent =
  ev_delay :: "int option"
  ev_time :: "int option"

record StopTimeUpdate =
  su_stop_id :: string
  su_stop_sequence :: "int option"
  su_arrival :: "StopTimeEvent option"
  su_departure :: "StopTimeEvent option"

record PbTripUpdate =
  pb_trip_route_id :: "string option"
  pb_vehicle_id :: "string option"
  pb_stop_time_update :: "StopTimeUpdate list"

record FeedEntity =
  fe_id :: string
  fe_trip_update :: "PbTripUpdate option"

record FeedMessage =
  header_timestamp :: "int option"
  fm_entity :: "FeedEntity list"

record trip_update_dict =
  tu_trip_id :: string
  tu_vehicle_id :: "string option"
  tu_route_id :: "string option"
  tu_timestamp :: "int option"
  tu_delay :: "rat option"
  tu_stop_time_updates :: "StopTimeUpdate list"

text \<open>The loop that collects \<^verbatim>\<open>delays\<close>: the conditions
  \<^verbatim>\<open>"arrival" in stop_update and stop_update["arrival"].get("delay")\<close> test the key and
  then the truthiness of the delay.\<close>

definition event_delays :: "StopTimeEvent option \<Rightarrow> int list" where
  "event_delays ev =
     (case ev of
        None \<Rightarrow> []
      | Some e \<Rightarrow> if truthy_int (ev_delay e) then [the (ev_delay e)] else [])"

definition collect_delays :: "StopTimeUpdate list \<Rightarrow> int list" where
  "collect_delays stop_time_updates =
     concat (map (\<lambda>su. event_delays (su_arrival su) @ event_delays (su_departure su)) stop_time_updates)"

definition overall_delay :: "StopTimeUpdate list \<Rightarrow> rat option" where
  "overall_delay stop_time_updates =
     (let delays = collect_delays stop_time_updates
      in if delays \<noteq> [] then Some (py_mean delays) else None)"

definition parse_entity :: "int option \<Rightarrow> FeedEntity \<Rightarrow> trip_update_dict list" where
  "parse_entity ts entity =
     (case fe_trip_update entity of
        None \<Rightarrow> []
      | Some tu \<Rightarrow>
          [\<lparr>tu_trip_id = fe_id entity, tu_vehicle_id = pb_vehicle_id tu,
            tu_route_id = pb_trip_route_id tu, tu_timestamp = ts,
            tu_delay = overall_delay (pb_stop_time_update tu),
            tu_stop_time_updates = pb_stop_time_update tu\<rparr>])"

text \<open>\<open>None\<close> as the input stands for bytes that do not decode: the exception is caught
  and the function returns the empty list.\<close>

definition parse_trip_updates :: "FeedMessage option \<Rightarrow> trip_update_dict list" where
  "parse_trip_updates protobuf_data =
     (case protobuf_data of
        None \<Rightarrow> []
      | Some feed \<Rightarrow> concat (map (parse_entity (header_timestamp feed)) (fm_entity feed)))"

text \<open>The delay as the claim words it: the mean of all delay values that are present,
  a present 0 included, and no value when none is present.\<close>

definition present_delays :: "StopTimeUpdate list \<Rightarrow> int list" where
  "present_delays stop_time_updates =
     concat (map (\<lambda>su. [d. Some e \<leftarrow> [su_arrival su], Some d \<leftarrow> [ev_delay e]] @
                        [d. Some e \<leftarrow> [su_departure su], Some d \<leftarrow> [ev_delay e]])
                 stop_time_updates)"

definition spec_trip_delay :: "StopTimeUpdate list \<Rightarrow> rat option" where
  "spec_trip_delay stop_time_updates =
     (if present_delays stop_time_updates = [] then None
      else Some (py_mean (present_delays stop_time_updates)))"

section \<open>REST ingestor (\<^verbatim>\<open>ingestion/v3_rest_ingestor.py\<close>)\<close>

subsection \<open>\<^verbatim>\<open>_check_rate_limit\<close>\<close>

text \<open>One call, started when the clock reads \<open>now\<close>, with the timestamps recorded so
  far. The result is the clock reading at which the call returns, which is when the
  request it guards is issued, and the new list of timestamps. \<^verbatim>\<open>asyncio.sleep\<close> suspends
  for at least the time asked; \<open>oversleep\<close> (not negative) is what it takes beyond that.
  With a quota of zero or less the index \<^verbatim>\<open>self.request_timestamps[0]\<close> is taken of a list
  that may be empty, which raises.\<close>

definition check_rate_limit ::
  "int \<Rightarrow> int \<Rightarrow> datetime \<Rightarrow> datetime list \<Rightarrow> py_exn + (datetime \<times> datetime list)" where
  "check_rate_limit rate_limit_requests_per_minute oversleep now request_timestamps =
     (let cutoff = now - minutes 1;
          kept = filter (\<lambda>ts. ts > cutoff) request_timestamps
      in if int (length kept) \<ge> rate_limit_requests_per_minute
         then (case kept of
                 [] \<Rightarrow> Inl IndexError
               | oldest # _ \<Rightarrow>
                   (let wait_time = oldest - cutoff
                    in Inr (now + wait_time + oversleep, kept @ [now])))
         else Inr (now, kept @ [now]))"

text \<open>A single caller making one call after another: each call is described by the time
  that passes between the return of the previous call and its own start, and by the
  oversleep of its wait, if it waits. The result lists the times at which the calls
  returned (the admissions) and the timestamps left in the window.\<close>

fun admit_calls ::
  "int \<Rightarrow> datetime \<Rightarrow> datetime list \<Rightarrow> (int \<times> int) list \<Rightarrow> py_exn + (datetime list \<times> datetime list)" where
  "admit_calls quota clock timestamps [] = Inr ([], timestamps)"
| "admit_calls quota clock timestamps ((gap, oversleep) # calls) =
     (case check_rate_limit quota oversleep (clock + gap) timestamps of
        Inl e \<Rightarrow> Inl e
      | Inr (admitted_at, timestamps') \<Rightarrow>
          (case admit_calls quota admitted_at timestamps' calls of
             Inl e \<Rightarrow> Inl e
           | Inr (admissions, final) \<Rightarrow> Inr (admitted_at # admissions, final)))"

text \<open>The number of admissions in the 60 seconds that end at \<open>t\<close>.\<close>

definition admitted_in_window :: "datetime list \<Rightarrow> datetime \<Rightarrow> nat" where
  "admitted_in_window admissions t =
     length (filter (\<lambda>a. t - minutes 1 < a \<and> a \<le> t) admissions)"

subsection \<open>\<^verbatim>\<open>_make_request\<close>\<close>










section \<open>Polling (\<^verbatim>\<open>ingestion/base.py\<close>)\<close>

record 'a IngestionResult =
  success :: bool
  data :: "'a list"
  ir_timestamp :: datetime
  source :: string
  record_count :: nat
  error_message :: "string option"

definition is_successful :: "'a IngestionResult \<Rightarrow> bool" where
  "is_successful r = (success r \<and> record_count r > 0)"

record ingestor_state =
  is_running :: bool
  last_successful_ingestion :: "datetime option"
  total_records_ingested :: nat
  total_errors :: nat
  consecutive_failures :: nat

text \<open>\<^verbatim>\<open>ingest\<close>: what \<^verbatim>\<open>fetch_data\<close> did in this cycle is an input (\<open>Inl\<close> the message of
  the exception it raised, \<open>Inr\<close> the raw records), \<^verbatim>\<open>transform_data\<close> a function that may
  fail in the same way. Raw and transformed records are both lists of dictionaries.\<close>

definition ingest_failed ::
  "string \<Rightarrow> datetime \<Rightarrow> string \<Rightarrow> ingestor_state \<Rightarrow> ingestor_state \<times> 'a IngestionResult" where
  "ingest_failed name start_time e st =
     (st\<lparr>total_errors := total_errors st + 1,
         consecutive_failures := consecutive_failures st + 1\<rparr>,
      \<lparr>success = False, data = [], ir_timestamp = start_time, source = name,
       record_count = 0, error_message = Some e\<rparr>)"

definition ingest ::
  "string \<Rightarrow> ('a list \<Rightarrow> string + 'a list) \<Rightarrow> datetime \<Rightarrow> string + 'a list \<Rightarrow> ingestor_state
     \<Rightarrow> ingestor_state \<times> 'a IngestionResult" where
  "ingest name transform_data start_time fetched st =
     (case fetched of
        Inl e \<Rightarrow> ingest_failed name start_time e st
      | Inr raw_data \<Rightarrow>
          if raw_data = []
          then (st, \<lparr>success = True, data = [], ir_timestamp = start_time, source = name,
                     record_count = 0, error_message = None\<rparr>)
          else (case transform_data raw_data of
                  Inl e \<Rightarrow> ingest_failed name start_time e st
                | Inr transformed_data \<Rightarrow>
                    (st\<lparr>total_records_ingested :=
                          total_records_ingested st + length transformed_data,
                        last_successful_ingestion := Some start_time,
                        consecutive_failures := 0\<rparr>,
                     \<lparr>success = True, data = transformed_data, ir_timestamp = start_time,
                      source = name, record_count = length transformed_data,
                      error_message = None\<rparr>)))"

text \<open>\<^verbatim>\<open>run_continuous\<close>: one list element per poll cycle, giving the clock reading at its
  start, what \<^verbatim>\<open>fetch_data\<close> did, and whether \<^verbatim>\<open>stop()\<close> was called by another task while
  this one was suspended in the cycle. The callback is a function that says whether it
  returned (\<open>True\<close>) or raised; an exception that escapes it ends the loop. The result is
  the final state and the results the callback was invoked with, in order. When the list
  is used up the task is cancelled in its sleep.\<close>

record 'a cycle =
  cy_start_time :: datetime
  cy_fetched :: "string + 'a list"
  cy_stop_called :: bool

definition end_of_cycle :: "'a cycle \<Rightarrow> ingestor_state \<Rightarrow> ingestor_state" where
  "end_of_cycle c st = (if cy_stop_called c then st\<lparr>is_running := False\<rparr> else st)"

fun polling_loop ::
  "string \<Rightarrow> ('a list \<Rightarrow> string + 'a list) \<Rightarrow> ('a IngestionResult \<Rightarrow> bool) option
     \<Rightarrow> ingestor_state \<Rightarrow> 'a cycle list \<Rightarrow> ingestor_state \<times> 'a IngestionResult list" where
  "polling_loop name transform_data callback st [] = (st\<lparr>is_running := False\<rparr>, [])"
| "polling_loop name transform_data callback st (c # cs) =
     (if \<not> is_running st then (st\<lparr>is_running := False\<rparr>, [])
      else
        (let (st1, result) = ingest name transform_data (cy_start_time c) (cy_fetched c) st
         in if callback \<noteq> None \<and> is_successful result
            then (if the callback result
                  then (let (st2, calls) =
                              polling_loop name transform_data callback (end_of_cycle c st1) cs
                        in (st2, result # calls))
                  else (st1\<lparr>is_running := False\<rparr>, [result]))
            else polling_loop name transform_data callback (end_of_cycle c st1) cs))"

definition run_continuous ::
  "string \<Rightarrow> ('a list \<Rightarrow> string + 'a list) \<Rightarrow> ('a IngestionResult \<Rightarrow> bool) option
     \<Rightarrow> ingestor_state \<Rightarrow> 'a cycle list \<Rightarrow> ingestor_state \<times> 'a IngestionResult list" where
  "run_continuous name transform_data callback st cs =
     polling_loop name transform_data callback (st\<lparr>is_running := True\<rparr>) cs"

text \<open>The results of the cycles of a run in which nothing stops the loop, one per
  cycle.\<close>

fun cycle_results ::
  "string \<Rightarrow> ('a list \<Rightarrow> string + 'a list) \<Rightarrow> ingestor_state \<Rightarrow> 'a cycle list
     \<Rightarrow> 'a IngestionResult list" where
  "cycle_results name transform_data st [] = []"
| "cycle_results name transform_data st (c # cs) =
     (let (st1, result) = ingest name transform_data (cy_start_time c) (cy_fetched c) st
      in result # cycle_results name transform_data st1 cs)"

section \<open>Storage (\<^verbatim>\<open>storage/transit_storage.py\<close>)\<close>

subsection \<open>The session as tables\<close>

text \<open>For \<^verbatim>\<open>_store_prediction\<close> the SQLAlchemy session is the content of the tables it
  reads and writes, each a list of rows in insertion order. \<^verbatim>\<open>session.add\<close> followed by
  \<^verbatim>\<open>session.flush()\<close> appends a row, \<^verbatim>\<open>query(...).filter(...).first()\<close> is the first row
  that satisfies the filter, and comparing a nullable column with \<^verbatim>\<open>==\<close> against
  \<^verbatim>\<open>None\<close> selects the rows where it is null. The rows carry the columns the function
  sets. The primary key of a prediction row is the \<^verbatim>\<open>uuid4\<close> default, drawn when the row
  is flushed; the value drawn is an argument, as text (what \<^verbatim>\<open>str\<close> returns for it), and
  so is the reading of the clock. The tables accept every row: a statement the database
  would refuse is outside this model.\<close>

record DBRoute =
  dbr_id :: string
  dbr_route_name :: string
  dbr_route_type :: int

record DBStop =
  dbs_id :: string
  dbs_stop_name :: string

record DBTrip =
  dbt_id :: string
  dbt_route_id :: string
  dbt_service_id :: string

record DBVehicle =
  dbv_id :: string
  dbv_vehicle_id :: string
  dbv_vehicle_label :: "string option"

record DBPrediction =
  dbp_id :: string
  dbp_trip_id :: string
  dbp_route_id :: string
  dbp_stop_id :: string
  dbp_vehicle_id :: "string option"
  dbp_arrival_time :: "datetime option"
  dbp_departure_time :: "datetime option"
  dbp_schedule_relationship :: "int option"
  dbp_status :: "string option"
  dbp_delay :: "int option"
  dbp_timestamp :: datetime

record session =
  routes :: "DBRoute list"
  stops :: "DBStop list"
  trips :: "DBTrip list"
  vehicles :: "DBVehicle list"
  predictions :: "DBPrediction list"

definition ensure_route_exists :: "string \<Rightarrow> session \<Rightarrow> session" where
  "ensure_route_exists route_id s =
     (if find (\<lambda>r. dbr_id r = route_id) (routes s) = None
      then s\<lparr>routes := routes s @
               [\<lparr>dbr_id = route_id, dbr_route_name = ''Route '' @ route_id, dbr_route_type = 0\<rparr>]\<rparr>
      else s)"

definition ensure_stop_exists :: "string \<Rightarrow> session \<Rightarrow> session" where
  "ensure_stop_exists stop_id s =
     (if find (\<lambda>r. dbs_id r = stop_id) (stops s) = None
      then s\<lparr>stops := stops s @ [\<lparr>dbs_id = stop_id, dbs_stop_name = ''Stop '' @ stop_id\<rparr>]\<rparr>
      else s)"

definition ensure_trip_exists :: "string \<Rightarrow> session \<Rightarrow> session" where
  "ensure_trip_exists trip_id s =
     (if find (\<lambda>r. dbt_id r = trip_id) (trips s) = None
      then s\<lparr>trips := trips s @
               [\<lparr>dbt_id = trip_id, dbt_route_id = ''unknown'', dbt_service_id = ''unknown''\<rparr>]\<rparr>
      else s)"

definition ensure_vehicle_exists :: "string \<Rightarrow> string option \<Rightarrow> session \<Rightarrow> session" where
  "ensure_vehicle_exists vehicle_id label s =
     (if vehicle_id \<noteq> [] \<and> find (\<lambda>r. dbv_vehicle_id r = vehicle_id) (vehicles s) = None
      then s\<lparr>vehicles := vehicles s @
               [\<lparr>dbv_id = vehicle_id, dbv_vehicle_id = vehicle_id, dbv_vehicle_label = label\<rparr>]\<rparr>
      else s)"

text \<open>\<^verbatim>\<open>_map_schedule_relationship\<close> for the model's string-valued field: the lookup of
  the lower-cased value in the fixed table. \<open>lower\<close> is \<^verbatim>\<open>str.lower\<close> on ASCII.\<close>

definition lower_char :: "char \<Rightarrow> char" where
  "lower_char c =
     (if 65 \<le> (of_char c :: nat) \<and> (of_char c :: nat) \<le> 90
      then char_of ((of_char c :: nat) + 32) else c)"

definition lower :: "string \<Rightarrow> string" where
  "lower s = map lower_char s"

definition map_schedule_relationship :: "string option \<Rightarrow> int option" where
  "map_schedule_relationship v =
     (case v of
        None \<Rightarrow> None
      | Some x \<Rightarrow>
          map_of [(''scheduled'', 0), (''added'', 1), (''unscheduled'', 2),
                  (''canceled'', 3), (''skipped'', 4)] (lower x))"

definition same_key :: "Prediction \<Rightarrow> DBPrediction \<Rightarrow> bool" where
  "same_key prediction row =
     (dbp_trip_id row = p_trip_id prediction \<and>
      dbp_stop_id row = p_stop_id prediction \<and>
      dbp_arrival_time row = arrival_time prediction)"

definition store_prediction ::
  "bool \<Rightarrow> string \<Rightarrow> datetime \<Rightarrow> Prediction \<Rightarrow> session \<Rightarrow> string \<times> session" where
  "store_prediction auto_seed_missing_entities uuid4 utcnow prediction s =
     (let s1 = ensure_route_exists (p_route_id prediction) s;
          s2 = ensure_stop_exists (p_stop_id prediction) s1;
          s3 = ensure_trip_exists (p_trip_id prediction) s2;
          s4 = (if auto_seed_missing_entities \<and> truthy_str (p_vehicle_id prediction)
                then ensure_vehicle_exists (the (p_vehicle_id prediction))
                       (vehicle_label prediction) s3
                else s3)
      in case find (same_key prediction) (predictions s4) of
           Some existing \<Rightarrow> (dbp_id existing, s4)
         | None \<Rightarrow>
             (uuid4,
              s4\<lparr>predictions := predictions s4 @
                   [\<lparr>dbp_id = uuid4,
                     dbp_trip_id = p_trip_id prediction,
                     dbp_route_id = p_route_id prediction,
                     dbp_stop_id = p_stop_id prediction,
                     dbp_vehicle_id = p_vehicle_id prediction,
                     dbp_arrival_time = arrival_time prediction,
                     dbp_departure_time = departure_time prediction,
                     dbp_schedule_relationship =
                       map_schedule_relationship (schedule_relationship prediction),
                     dbp_status = p_status prediction,
                     dbp_delay = p_delay prediction,
                     dbp_timestamp = utcnow\<rparr>]\<rparr>))"

text \<open>The stored rows that carry a prediction's idempotency key.\<close>

definition key_rows :: "Prediction \<Rightarrow> session \<Rightarrow> DBPrediction list" where
  "key_rows prediction s = filter (same_key prediction) (predictions s)"

subsection \<open>\<^verbatim>\<open>store_batch\<close>\<close>

text \<open>\<^verbatim>\<open>store_batch\<close> is embedded over an arbitrary session type: what the database does
  in each per-record store, in the log append and in closing the session is given by
  operations that either return or raise (\<open>Inl\<close> carries the exception's message), so that
  every \<^verbatim>\<open>try\<close> and \<^verbatim>\<open>except\<close> of the function is a branch. A value of none of the seven
  classes matches no \<^verbatim>\<open>isinstance\<close> test, stores nothing and is counted as a success.
  Closing the session commits, and \<^verbatim>\<open>close_db_async\<close> re-raises what the commit raises; as
  it runs in the \<^verbatim>\<open>finally\<close> clause inside the outer \<^verbatim>\<open>try\<close>, its exception replaces the
  result being returned.\<close>

record ingestion_log_entry =
  il_source_type :: string
  il_status :: string
  il_records_processed :: nat
  il_records_inserted :: nat
  il_records_updated :: nat
  il_records_failed :: nat
  il_processing_time_ms :: int
  il_error_message :: "string option"

record 's storage_ops =
  store_prediction_op :: "Prediction \<Rightarrow> 's \<Rightarrow> (string + string) \<times> 's"
  store_vehicle_position_op :: "VehiclePosition \<Rightarrow> 's \<Rightarrow> (string + string) \<times> 's"
  store_trip_update_op :: "TripUpdate \<Rightarrow> 's \<Rightarrow> (string + string) \<times> 's"
  store_alert_op :: "Alert \<Rightarrow> 's \<Rightarrow> (string + string) \<times> 's"
  store_route_op :: "Route \<Rightarrow> 's \<Rightarrow> (string + string) \<times> 's"
  store_stop_op :: "Stop \<Rightarrow> 's \<Rightarrow> (string + string) \<times> 's"
  store_trip_op :: "Trip \<Rightarrow> 's \<Rightarrow> (string + string) \<times> 's"
  log_ingestion_op :: "ingestion_log_entry \<Rightarrow> 's \<Rightarrow> (string + unit) \<times> 's"
  close_op :: "'s \<Rightarrow> string + unit"

fun store_item :: "'s storage_ops \<Rightarrow> transit_data \<Rightarrow> 's \<Rightarrow> (string + string) \<times> 's" where
  "store_item ops (PredictionData x) s = store_prediction_op ops x s"
| "store_item ops (VehiclePositionData x) s = store_vehicle_position_op ops x s"
| "store_item ops (TripUpdateData x) s = store_trip_update_op ops x s"
| "store_item ops (AlertData x) s = store_alert_op ops x s"
| "store_item ops (RouteData x) s = store_route_op ops x s"
| "store_item ops (StopData x) s = store_stop_op ops x s"
| "store_item ops (TripData x) s = store_trip_op ops x s"
| "store_item ops (OtherData n) s = (Inr [], s)"

text \<open>The per-record loop with its two counters.\<close>

fun store_loop :: "'s storage_ops \<Rightarrow> transit_data list \<Rightarrow> nat \<Rightarrow> nat \<Rightarrow> 's \<Rightarrow> nat \<times> nat \<times> 's" where
  "store_loop ops [] success_count error_count s = (success_count, error_count, s)"
| "store_loop ops (d # ds) success_count error_count s =
     (case store_item ops d s of
        (Inr _, s') \<Rightarrow> store_loop ops ds (success_count + 1) error_count s'
      | (Inl _, s') \<Rightarrow> store_loop ops ds success_count (error_count + 1) s')"

text \<open>The dictionary returned: the counts are present on success, the message on
  failure.\<close>

record batch_result =
  br_success :: bool
  br_total :: "nat option"
  br_successful :: "nat option"
  br_errors :: "nat option"
  br_error :: "string option"

definition batch_failed :: "string \<Rightarrow> batch_result" where
  "batch_failed e =
     \<lparr>br_success = False, br_total = None, br_successful = None, br_errors = None,
      br_error = Some e\<rparr>"

text \<open>\<open>acquired\<close> is what \<^verbatim>\<open>get_db_async\<close> did (\<open>Inl\<close> when it raised); \<open>elapsed_ms\<close> is the
  processing time read from the clock. The result is the returned dictionary together
  with the rows handed to \<^verbatim>\<open>_log_ingestion\<close>.\<close>

definition store_batch ::
  "'s storage_ops \<Rightarrow> string + 's \<Rightarrow> int \<Rightarrow> transit_data list \<Rightarrow> string
     \<Rightarrow> batch_result \<times> ingestion_log_entry list" where
  "store_batch ops acquired elapsed_ms data_list source_type =
     (let total_count = length data_list
      in case acquired of
           Inl e \<Rightarrow> (batch_failed e, [])
         | Inr s \<Rightarrow>
             (let (success_count, error_count, s1) = store_loop ops data_list 0 0 s;
                  entry = \<lparr>il_source_type = source_type,
                           il_status = (if error_count = 0 then ''success'' else ''partial''),
                           il_records_processed = total_count,
                           il_records_inserted = success_count,
                           il_records_updated = 0,
                           il_records_failed = error_count,
                           il_processing_time_ms = elapsed_ms,
                           il_error_message = None\<rparr>
              in case log_ingestion_op ops entry s1 of
                   (Inl e, s2) \<Rightarrow>
                     (case close_op ops s2 of
                        Inl e' \<Rightarrow> (batch_failed e', [entry])
                      | Inr _ \<Rightarrow> (batch_failed e, [entry]))
                 | (Inr _, s2) \<Rightarrow>
                     (case close_op ops s2 of
                        Inl e' \<Rightarrow> (batch_failed e', [entry])
                      | Inr _ \<Rightarrow>
                          (\<lparr>br_success = True, br_total = Some total_count,
                            br_successful = Some success_count,
                            br_errors = Some error_count, br_error = None\<rparr>,
                           [entry]))))"

text \<open>The number of records of a batch whose store raised, counted along the run of the
  loop.\<close>

fun failed_stores :: "'s storage_ops \<Rightarrow> transit_data list \<Rightarrow> 's \<Rightarrow> nat" where
  "failed_stores ops [] s = 0"
| "failed_stores ops (d # ds) s =
     (case store_item ops d s of
        (Inr _, s') \<Rightarrow> failed_stores ops ds s'
      | (Inl _, s') \<Rightarrow> Suc (failed_stores ops ds s'))"

fun session_after :: "'s storage_ops \<Rightarrow> transit_data list \<Rightarrow> 's \<Rightarrow> 's" where
  "session_after ops [] s = s"
| "session_after ops (d # ds) s = session_after ops ds (snd (store_item ops d s))"

section \<open>Auxiliary definitions and sample inputs\<close>

text \<open>The first four statements of \<^verbatim>\<open>_store_prediction\<close> as one step, and the condition
  under which they change nothing.\<close>

definition seed_related :: "bool \<Rightarrow> Prediction \<Rightarrow> session \<Rightarrow> session" where
  "seed_related seed p s =
     (let s1 = ensure_route_exists (p_route_id p) s;
          s2 = ensure_stop_exists (p_stop_id p) s1;
          s3 = ensure_trip_exists (p_trip_id p) s2
      in if seed \<and> truthy_str (p_vehicle_id p)
         then ensure_vehicle_exists (the (p_vehicle_id p)) (vehicle_label p) s3 else s3)"

definition related_exist :: "bool \<Rightarrow> Prediction \<Rightarrow> session \<Rightarrow> bool" where
  "related_exist seed p s =
     (find (\<lambda>r. dbr_id r = p_route_id p) (routes s) \<noteq> None \<and>
      find (\<lambda>r. dbs_id r = p_stop_id p) (stops s) \<noteq> None \<and>
      find (\<lambda>r. dbt_id r = p_trip_id p) (trips s) \<noteq> None \<and>
      (seed \<and> truthy_str (p_vehicle_id p) \<longrightarrow>
         find (\<lambda>r. dbv_vehicle_id r = the (p_vehicle_id p)) (vehicles s) \<noteq> None))"

text \<open>Whether the log append and the closing of the session both return, for the row and
  the session that \<^verbatim>\<open>store_batch\<close> reaches them with.\<close>

definition log_and_close_complete :: "'s storage_ops \<Rightarrow> ingestion_log_entry \<Rightarrow> 's \<Rightarrow> bool" where
  "log_and_close_complete ops entry s =
     (case log_ingestion_op ops entry s of
        (Inl _, _) \<Rightarrow> False
      | (Inr _, s2) \<Rightarrow> (case close_op ops s2 of Inl _ \<Rightarrow> False | Inr _ \<Rightarrow> True))"

text \<open>The predictions of the repository's test \<^verbatim>\<open>test_performance_metrics_with_delays\<close>
  and the aggregator that has processed them.\<close>

definition test_prediction :: "string \<Rightarrow> int option \<Rightarrow> Prediction" where
  "test_prediction i d =
     \<lparr>prediction_id = ''pred_'' @ i, p_trip_id = ''trip_'' @ i, p_stop_id = ''stop_'' @ i,
      p_route_id = ''Red'', arrival_time = None, departure_time = None,
      schedule_relationship = None, p_vehicle_id = None, vehicle_label = None,
      p_status = None, p_delay = d\<rparr>"


text \<open>An aggregator whose two predictions, on route Red at stop \<^verbatim>\<open>stop_1\<close>, carry the
  delays 0 and \<^verbatim>\<open>None\<close>.\<close>

definition on_time_aggregator :: DataAggregator where
  "on_time_aggregator =
     foldl (process 0) new_aggregator
       (map PredictionData
          [(test_prediction ''1'' (Some 0)), (test_prediction ''1'' None)])"

text \<open>A vehicle position in Boston and the same one moved to New York.\<close>

definition boston_position :: VehiclePosition where
  "boston_position =
     \<lparr>v_vehicle_id = ''vehicle_1'', v_trip_id = Some ''trip_1'', v_route_id = Some ''Red'',
      latitude = 423564 / 10000, longitude = - (710624 / 10000), bearing = None, speed = None,
      v_timestamp = 0, v_timestamp_aware = True\<rparr>"

definition new_york_position :: VehiclePosition where
  "new_york_position = boston_position\<lparr>latitude := 407128 / 10000, longitude := - (740060 / 10000)\<rparr>"

text \<open>A stop-time update whose arrival is on time (delay 0) and whose departure is two
  minutes late, and one whose arrival and departure are both on time.\<close>

definition late_departure :: StopTimeUpdate where
  "late_departure =
     \<lparr>su_stop_id = ''70061'', su_stop_sequence = Some 1,
      su_arrival = Some \<lparr>ev_delay = Some 0, ev_time = None\<rparr>,
      su_departure = Some \<lparr>ev_delay = Some 120, ev_time = None\<rparr>\<rparr>"

definition on_time_stop :: StopTimeUpdate where
  "on_time_stop =
     \<lparr>su_stop_id = ''70063'', su_stop_sequence = Some 2,
      su_arrival = Some \<lparr>ev_delay = Some 0, ev_time = None\<rparr>,
      su_departure = Some \<lparr>ev_delay = Some 0, ev_time = None\<rparr>\<rparr>"

definition trip_feed :: "StopTimeUpdate list \<Rightarrow> FeedMessage" where
  "trip_feed updates =
     \<lparr>header_timestamp = Some 1700000000,
      fm_entity = [\<lparr>fe_id = ''trip_1'',
                    fe_trip_update = Some \<lparr>pb_trip_route_id = Some ''Red'', pb_vehicle_id = None,
                                            pb_stop_time_update = updates\<rparr>\<rparr>]\<rparr>"

text \<open>An ingestor that has not run yet, and three poll cycles: a fetch that raises, a
  fetch that returns no records, a fetch that returns two.\<close>

definition fresh_ingestor :: ingestor_state where
  "fresh_ingestor =
     \<lparr>is_running = False, last_successful_ingestion = None, total_records_ingested = 0,
      total_errors = 0, consecutive_failures = 0\<rparr>"

definition sample_cycles :: "nat cycle list" where
  "sample_cycles =
     [\<lparr>cy_start_time = 0, cy_fetched = Inl ''timeout'', cy_stop_called = False\<rparr>,
      \<lparr>cy_start_time = seconds 10, cy_fetched = Inr [], cy_stop_called = False\<rparr>,
      \<lparr>cy_start_time = seconds 20, cy_fetched = Inr [1, 2], cy_stop_called = False\<rparr>]"

definition empty_cycle :: "nat cycle" where
  "empty_cycle = \<lparr>cy_start_time = 0, cy_fetched = Inr [], cy_stop_called = False\<rparr>"

text \<open>An empty database and the prediction of the repository's aggregator test, with an
  arrival time.\<close>

definition empty_session :: session where
  "empty_session = \<lparr>routes = [], stops = [], trips = [], vehicles = [], predictions = []\<rparr>"

definition sample_prediction :: Prediction where
  "sample_prediction =
     \<lparr>prediction_id = ''pred_1'', p_trip_id = ''trip_1'', p_stop_id = ''stop_1'',
      p_route_id = ''Red'', arrival_time = Some (minutes 5), departure_time = None,
      schedule_relationship = None, p_vehicle_id = Some ''vehicle_1'', vehicle_label = None,
      p_status = None, p_delay = Some 120\<rparr>"

text \<open>Storage operations over a session that is the list of stored ids: every store of
  a record raises, or none does; the log append returns; closing the session returns, or
  its commit raises.\<close>

definition sample_ops :: "bool \<Rightarrow> bool \<Rightarrow> (string list) storage_ops" where
  "sample_ops stores_raise close_raises =
     (let st = (\<lambda>i s. if stores_raise then (Inl ''IntegrityError'', s) else (Inr i, s @ [i]))
      in \<lparr>store_prediction_op = (\<lambda>x. st (prediction_id x)),
          store_vehicle_position_op = (\<lambda>x. st (v_vehicle_id x)),
          store_trip_update_op = (\<lambda>x. st (t_trip_id x)),
          store_alert_op = (\<lambda>x. st (alert_id x)),
          store_route_op = (\<lambda>x. st (r_route_id x)),
          store_stop_op = (\<lambda>x. st (s_stop_id x)),
          store_trip_op = (\<lambda>x. st (tr_trip_id x)),
          log_ingestion_op = (\<lambda>e s. (Inr (), s)),
          close_op = (\<lambda>s. if close_raises then Inl ''OperationalError'' else Inr ())\<rparr>)"

section \<open>Theorems\<close>

subsection \<open>Service status scoring\<close>

text \<open>
  Claim C7. For every on-time percentage, every list of anomalies and every service-health
  dictionary (whose \<^verbatim>\<open>total_alerts\<close> entry, 0 when absent, is the total alert count), the
  status computed by \<^verbatim>\<open>_calculate_overall_status\<close> is the label of the score obtained by
  starting at 100, subtracting 20 if the on-time percentage is below 80 and otherwise 10 if
  it is below 90, subtracting 15 per anomaly of severity "high", and subtracting 10 if the
  total alert count exceeds 5; the label is excellent from 80, good from 60, fair from 40
  and poor below.
\<close>

theorem calculate_overall_status_spec:
  "calculate_overall_status performance anomalies service_health =
     spec_label (spec_score (on_time_percentage performance) (count_high anomalies)
                   (dict_get service_health ''total_alerts'' 0))"
  by (simp add: calculate_overall_status_def spec_label_def spec_score_def count_high_def Let_def)

subsection \<open>Lists and rows\<close>

lemma find_append_none:
  "find P xs = None \<Longrightarrow> find P (xs @ [x]) = (if P x then Some x else None)"
  by (induction xs) (auto split: if_splits)

lemma filter_find_none: "find P xs = None \<Longrightarrow> filter P xs = []"
  by (induction xs) (auto split: if_splits)

subsection \<open>Idempotent storage of predictions\<close>

lemma ensure_route_found:
  "\<exists>y. find (\<lambda>r. dbr_id r = k) (routes (ensure_route_exists k s)) = Some y"
  by (cases "find (\<lambda>r. dbr_id r = k) (routes s)")
     (simp_all add: ensure_route_exists_def find_append_none)

lemma ensure_stop_found:
  "\<exists>y. find (\<lambda>r. dbs_id r = k) (stops (ensure_stop_exists k s)) = Some y"
  by (cases "find (\<lambda>r. dbs_id r = k) (stops s)")
     (simp_all add: ensure_stop_exists_def find_append_none)

lemma ensure_trip_found:
  "\<exists>y. find (\<lambda>r. dbt_id r = k) (trips (ensure_trip_exists k s)) = Some y"
  by (cases "find (\<lambda>r. dbt_id r = k) (trips s)")
     (simp_all add: ensure_trip_exists_def find_append_none)

lemma ensure_vehicle_found:
  "k \<noteq> [] \<Longrightarrow>
   \<exists>y. find (\<lambda>r. dbv_vehicle_id r = k) (vehicles (ensure_vehicle_exists k l s)) = Some y"
  by (cases "find (\<lambda>r. dbv_vehicle_id r = k) (vehicles s)")
     (simp_all add: ensure_vehicle_exists_def find_append_none)

lemma ensure_route_frame:
  "stops (ensure_route_exists k s) = stops s"
  "trips (ensure_route_exists k s) = trips s"
  "vehicles (ensure_route_exists k s) = vehicles s"
  "predictions (ensure_route_exists k s) = predictions s"
  by (simp_all add: ensure_route_exists_def)

lemma ensure_stop_frame:
  "routes (ensure_stop_exists k s) = routes s"
  "trips (ensure_stop_exists k s) = trips s"
  "vehicles (ensure_stop_exists k s) = vehicles s"
  "predictions (ensure_stop_exists k s) = predictions s"
  by (simp_all add: ensure_stop_exists_def)

lemma ensure_trip_frame:
  "routes (ensure_trip_exists k s) = routes s"
  "stops (ensure_trip_exists k s) = stops s"
  "vehicles (ensure_trip_exists k s) = vehicles s"
  "predictions (ensure_trip_exists k s) = predictions s"
  by (simp_all add: ensure_trip_exists_def)

lemma ensure_vehicle_frame:
  "routes (ensure_vehicle_exists k l s) = routes s"
  "stops (ensure_vehicle_exists k l s) = stops s"
  "trips (ensure_vehicle_exists k l s) = trips s"
  "predictions (ensure_vehicle_exists k l s) = predictions s"
  by (simp_all add: ensure_vehicle_exists_def)

lemmas ensure_frame =
  ensure_route_frame ensure_stop_frame ensure_trip_frame ensure_vehicle_frame

lemma ensure_route_fixed:
  "find (\<lambda>r. dbr_id r = k) (routes s) \<noteq> None \<Longrightarrow> ensure_route_exists k s = s"
  by (simp add: ensure_route_exists_def)

lemma ensure_stop_fixed:
  "find (\<lambda>r. dbs_id r = k) (stops s) \<noteq> None \<Longrightarrow> ensure_stop_exists k s = s"
  by (simp add: ensure_stop_exists_def)

lemma ensure_trip_fixed:
  "find (\<lambda>r. dbt_id r = k) (trips s) \<noteq> None \<Longrightarrow> ensure_trip_exists k s = s"
  by (simp add: ensure_trip_exists_def)

lemma ensure_vehicle_fixed:
  "find (\<lambda>r. dbv_vehicle_id r = k) (vehicles s) \<noteq> None \<Longrightarrow> ensure_vehicle_exists k l s = s"
  by (simp add: ensure_vehicle_exists_def)

lemma seed_related_exist: "related_exist seed p (seed_related seed p s)"
proof (cases "p_vehicle_id p")
  case None
  then show ?thesis
    by (simp add: related_exist_def seed_related_def Let_def ensure_frame
          ensure_route_found ensure_stop_found ensure_trip_found)
next
  case (Some v)
  then show ?thesis
    by (simp add: related_exist_def seed_related_def Let_def ensure_frame
          ensure_route_found ensure_stop_found ensure_trip_found ensure_vehicle_found)
qed

lemma seed_related_fixed:
  assumes "related_exist seed p s"
  shows "seed_related seed p s = s"
proof -
  have r: "ensure_route_exists (p_route_id p) s = s"
    using assms by (simp add: related_exist_def ensure_route_fixed)
  have st: "ensure_stop_exists (p_stop_id p) s = s"
    using assms by (simp add: related_exist_def ensure_stop_fixed)
  have t: "ensure_trip_exists (p_trip_id p) s = s"
    using assms by (simp add: related_exist_def ensure_trip_fixed)
  have v: "seed \<and> truthy_str (p_vehicle_id p) \<Longrightarrow>
           ensure_vehicle_exists (the (p_vehicle_id p)) (vehicle_label p) s = s"
    using assms by (simp add: related_exist_def ensure_vehicle_fixed)
  show ?thesis using v by (simp add: seed_related_def Let_def r st t)
qed

lemma seed_related_predictions: "predictions (seed_related seed p s) = predictions s"
  by (simp add: seed_related_def Let_def ensure_frame)

lemma related_exist_predictions_update:
  "related_exist seed p (s\<lparr>predictions := ps\<rparr>) = related_exist seed p s"
  by (simp add: related_exist_def)

lemma store_prediction_alt:
  "store_prediction seed u t p s =
     (let s4 = seed_related seed p s
      in case find (same_key p) (predictions s4) of
           Some existing \<Rightarrow> (dbp_id existing, s4)
         | None \<Rightarrow> (u, s4\<lparr>predictions := predictions s4 @
              [\<lparr>dbp_id = u, dbp_trip_id = p_trip_id p, dbp_route_id = p_route_id p,
                dbp_stop_id = p_stop_id p, dbp_vehicle_id = p_vehicle_id p,
                dbp_arrival_time = arrival_time p, dbp_departure_time = departure_time p,
                dbp_schedule_relationship = map_schedule_relationship (schedule_relationship p),
                dbp_status = p_status p, dbp_delay = p_delay p, dbp_timestamp = t\<rparr>]\<rparr>))"
  by (simp add: store_prediction_def seed_related_def Let_def)

text \<open>
  Claim C1. Storing the same prediction twice: whatever the database holds before, whatever
  ids the two inserts would draw and whenever they run, the second call returns the id
  the first call returned and leaves the database as the first call left it. If no row
  carried the prediction's key (trip, stop, arrival time) before, the first call created
  the row whose id both calls return, and it is the only row with that key afterwards;
  if at most one row carried the key before, exactly one does afterwards.
\<close>

theorem store_prediction_idempotent:
  assumes first: "store_prediction seed u1 t1 p s = (id1, s1)"
      and second: "store_prediction seed u2 t2 p s1 = (id2, s2)"
  shows "id2 = id1 \<and> s2 = s1 \<and>
         (key_rows p s = [] \<longrightarrow> id1 = u1 \<and> map dbp_id (key_rows p s2) = [id1]) \<and>
         (length (key_rows p s) \<le> 1 \<longrightarrow> length (key_rows p s2) = 1)"
proof (cases "find (same_key p) (predictions (seed_related seed p s))")
  case None
  let ?s4 = "seed_related seed p s"
  let ?row = "\<lparr>dbp_id = u1, dbp_trip_id = p_trip_id p, dbp_route_id = p_route_id p,
                dbp_stop_id = p_stop_id p, dbp_vehicle_id = p_vehicle_id p,
                dbp_arrival_time = arrival_time p, dbp_departure_time = departure_time p,
                dbp_schedule_relationship = map_schedule_relationship (schedule_relationship p),
                dbp_status = p_status p, dbp_delay = p_delay p, dbp_timestamp = t1\<rparr>"
  have s1: "s1 = ?s4\<lparr>predictions := predictions ?s4 @ [?row]\<rparr>" and id1: "id1 = u1"
    using first None by (auto simp: store_prediction_alt Let_def)
  have key: "same_key p ?row" by (simp add: same_key_def)
  have fixed: "seed_related seed p s1 = s1"
    by (rule seed_related_fixed) (simp add: s1 related_exist_predictions_update seed_related_exist)
  have found: "find (same_key p) (predictions s1) = Some ?row"
    using None key by (simp add: s1 find_append_none)
  have r2: "id2 = u1 \<and> s2 = s1"
    using second fixed found by (simp add: store_prediction_alt Let_def)
  have rows: "key_rows p s2 = [?row]"
    using r2 None key by (simp add: key_rows_def s1 filter_find_none)
  show ?thesis using r2 id1 rows by simp
next
  case (Some existing)
  let ?s4 = "seed_related seed p s"
  have s1: "s1 = ?s4" and id1: "id1 = dbp_id existing"
    using first Some by (auto simp: store_prediction_alt Let_def)
  have fixed: "seed_related seed p s1 = s1"
    by (rule seed_related_fixed) (simp add: s1 seed_related_exist)
  have r2: "id2 = id1 \<and> s2 = s1"
    using second fixed Some s1 id1 by (simp add: store_prediction_alt Let_def)
  have rows: "key_rows p s2 = key_rows p s"
    using r2 by (simp add: key_rows_def s1 seed_related_predictions)
  have ne: "key_rows p s \<noteq> []"
    using Some by (auto simp: key_rows_def seed_related_predictions filter_empty_conv find_Some_iff)
  show ?thesis using r2 rows ne by (cases "key_rows p s") auto
qed


theorem store_prediction_idempotent_witness:
  "key_rows sample_prediction empty_session = [] \<and>
   fst (store_prediction True ''6fa1'' 0 sample_prediction empty_session) = ''6fa1'' \<and>
   store_prediction True ''09c2'' (seconds 30) sample_prediction
       (snd (store_prediction True ''6fa1'' 0 sample_prediction empty_session))
     = (''6fa1'', snd (store_prediction True ''6fa1'' 0 sample_prediction empty_session)) \<and>
   map dbp_id (key_rows sample_prediction
       (snd (store_prediction True ''6fa1'' 0 sample_prediction empty_session))) = [''6fa1'']"
proof -
  obtain id1 s1 where first:
    "store_prediction True ''6fa1'' 0 sample_prediction empty_session = (id1, s1)"
    by (cases "store_prediction True ''6fa1'' 0 sample_prediction empty_session")
  obtain id2 s2 where second:
    "store_prediction True ''09c2'' (seconds 30) sample_prediction s1 = (id2, s2)"
    by (cases "store_prediction True ''09c2'' (seconds 30) sample_prediction s1")
  have empty: "key_rows sample_prediction empty_session = []"
    by (simp add: key_rows_def empty_session_def)
  show ?thesis
    using store_prediction_idempotent [OF first second] empty first second by auto
qed

subsection \<open>Retries of rate-limited requests\<close>



subsection \<open>Rate limiter\<close>

text \<open>
  Claim C3. With a quota of one request per minute, a caller calls at time 0, again ten
  seconds later, and again one second after the second call has returned. The calls
  return at 0 s, 60 s and 70 s: two requests are admitted in the ten seconds that end at
  70 s, and the timestamps recorded for the second and third call, 10 s and 61 s, are the
  times at which the calls started, not the times at which they were admitted.
\<close>

theorem check_rate_limit_exceeds_quota:
  "admit_calls 1 0 [] [(0, 0), (seconds 10, 0), (seconds 1, 0)]
     = Inr ([0, seconds 60, seconds 70], [seconds 10, seconds 61]) \<and>
   admitted_in_window [0, seconds 60, seconds 70] (seconds 70) = 2"
  by (simp add: check_rate_limit_def admitted_in_window_def seconds_def minutes_def Let_def)

subsection \<open>Trip-update delay\<close>

text \<open>
  Claim C4. For a trip whose only stop-time update has an arrival delay of 0 and a
  departure delay of 120, the parsed trip update carries the delay 120, where the mean of
  the present values is 60; for a trip whose arrival and departure delays are all present
  and 0, it carries no delay, where the mean of the present values is 0.
\<close>

theorem parse_trip_updates_drops_zero_delays:
  "map tu_delay (parse_trip_updates (Some (trip_feed [late_departure]))) = [Some 120] \<and>
   spec_trip_delay [late_departure] = Some 60 \<and>
   map tu_delay (parse_trip_updates (Some (trip_feed [on_time_stop]))) = [None] \<and>
   spec_trip_delay [on_time_stop] = Some 0"
  by (simp add: parse_trip_updates_def parse_entity_def trip_feed_def overall_delay_def
        collect_delays_def event_delays_def late_departure_def on_time_stop_def
        spec_trip_delay_def present_delays_def py_mean_def Let_def)

subsection \<open>Coordinate validation\<close>

lemma validate_coordinates_vehicle:
  "validate_coordinates lat lon vehicle_position_coordinate_bounds = in_service_area lat lon"
  by (simp add: validate_coordinates_def vehicle_position_coordinate_bounds_def
        in_service_area_def)

lemma validate_coordinates_stop:
  "validate_coordinates lat lon stop_coordinate_bounds = in_service_area lat lon"
  by (simp add: validate_coordinates_def stop_coordinate_bounds_def in_service_area_def)

lemma service_area_in_globe: "in_service_area lat lon \<Longrightarrow> in_globe lat lon"
  by (simp add: in_service_area_def in_globe_def)

text \<open>
  Claim C5, as amended. The coordinate validation of the data validator accepts exactly
  the coordinates of the service-area box, latitude in [42.0, 43.0] and longitude in
  [-71.5, -70.5], for vehicle positions and for stops. Hence a vehicle position that
  passes validation lies in the box, and so in the globe's ranges, and a stop that passes
  with both coordinates present lies in the box as well. The globe's ranges, latitude in
  [-90, 90] and longitude in [-180, 180], are what the field validators of the
  \<^verbatim>\<open>VehiclePosition\<close> model accept when a record is constructed.
\<close>

theorem validate_coordinates_service_area:
  "validate_coordinates lat lon vehicle_position_coordinate_bounds = in_service_area lat lon \<and>
   validate_coordinates lat lon stop_coordinate_bounds = in_service_area lat lon \<and>
   (validate_vehicle_position now position = Inr (Some accepted) \<longrightarrow>
      accepted = position \<and>
      in_service_area (latitude position) (longitude position) \<and>
      in_globe (latitude position) (longitude position)) \<and>
   (validate_stop stop = Some stop' \<and> stop_lat stop = Some slat \<and> stop_lon stop = Some slon \<longrightarrow>
      in_service_area slat slon) \<and>
   ((validate_latitude lat = Inr lat \<and> validate_longitude lon = Inr lon) = in_globe lat lon)"
proof -
  have vp: "validate_vehicle_position now position = Inr (Some accepted) \<longrightarrow>
      accepted = position \<and> in_service_area (latitude position) (longitude position)"
    by (auto simp: validate_vehicle_position_def validate_coordinates_vehicle
             split: if_splits sum.splits)
  have st: "validate_stop stop = Some stop' \<and> stop_lat stop = Some slat \<and>
            stop_lon stop = Some slon \<longrightarrow> in_service_area slat slon"
    by (auto simp: validate_stop_def validate_coordinates_stop split: if_splits)
  have gl: "(validate_latitude lat = Inr lat \<and> validate_longitude lon = Inr lon) = in_globe lat lon"
    by (auto simp: validate_latitude_def validate_longitude_def in_globe_def)
  show ?thesis
    using vp st gl service_area_in_globe [of "latitude position" "longitude position"]
    by (simp add: validate_coordinates_vehicle validate_coordinates_stop)
qed

theorem validate_coordinates_service_area_witness:
  "validate_vehicle_position (minutes 10) boston_position = Inr (Some boston_position) \<and>
   in_service_area (latitude boston_position) (longitude boston_position) \<and>
   in_globe (latitude boston_position) (longitude boston_position)"
proof -
  have accepted: "validate_vehicle_position (minutes 10) boston_position = Inr (Some boston_position)"
    by (simp add: validate_vehicle_position_def boston_position_def blank_def py_isspace_def
          validate_coordinates_def vehicle_position_coordinate_bounds_def
          validate_timestamp_age_def vehicle_position_max_age_def minutes_def seconds_def)
  show ?thesis
    using validate_coordinates_service_area
            [of "latitude boston_position" "longitude boston_position" "minutes 10"
                boston_position boston_position] accepted
    by simp
qed

text \<open>The claim as stated fails: a vehicle position in New York has coordinates within
  the globe's ranges, and validation rejects it for its coordinates.\<close>

theorem validate_coordinates_globe_counterexample:
  "in_globe (latitude new_york_position) (longitude new_york_position) \<and>
   \<not> validate_coordinates (latitude new_york_position) (longitude new_york_position)
        vehicle_position_coordinate_bounds \<and>
   validate_vehicle_position (minutes 10) new_york_position = Inr None"
  by (simp add: validate_vehicle_position_def new_york_position_def boston_position_def
        blank_def py_isspace_def in_globe_def validate_coordinates_def
        vehicle_position_coordinate_bounds_def)

subsection \<open>Performance metrics\<close>






subsection \<open>Polling and the subscriber callback\<close>

lemma ingest_keeps_running:
  "ingest name tr t f st = (st1, result) \<Longrightarrow> is_running st1 = is_running st"
  by (auto simp: ingest_def ingest_failed_def split: sum.splits if_splits)

lemma ingest_result_state_free:
  "snd (ingest name tr t f st) = snd (ingest name tr t f st')"
  by (auto simp: ingest_def ingest_failed_def split: sum.splits)

lemma ingest_state_running:
  "fst (ingest name tr t f (st\<lparr>is_running := b\<rparr>)) = (fst (ingest name tr t f st))\<lparr>is_running := b\<rparr>"
  by (auto simp: ingest_def ingest_failed_def split: sum.splits)

lemma cycle_results_running:
  "cycle_results name tr (st\<lparr>is_running := b\<rparr>) cs = cycle_results name tr st cs"
proof (induction cs arbitrary: st)
  case Nil
  then show ?case by simp
next
  case (Cons c cs)
  have r: "snd (ingest name tr (cy_start_time c) (cy_fetched c) (st\<lparr>is_running := b\<rparr>))
           = snd (ingest name tr (cy_start_time c) (cy_fetched c) st)"
    by (rule ingest_result_state_free)
  show ?case
    using Cons.IH [of "fst (ingest name tr (cy_start_time c) (cy_fetched c) st)"] r
      ingest_state_running [where name = name and tr = tr and t = "cy_start_time c"
        and f = "cy_fetched c" and st = st and b = b]
    by (simp add: split_beta)
qed

lemma polling_loop_calls:
  assumes "\<forall>r. cb r" and "\<forall>c \<in> set cs. \<not> cy_stop_called c" and "is_running st"
  shows "snd (polling_loop name tr (Some cb) st cs)
           = filter (\<lambda>r. success r \<and> record_count r > 0) (cycle_results name tr st cs)"
  using assms(2,3)
proof (induction cs arbitrary: st)
  case Nil
  then show ?case by simp
next
  case (Cons c cs)
  obtain st1 result where ing: "ingest name tr (cy_start_time c) (cy_fetched c) st = (st1, result)"
    by (cases "ingest name tr (cy_start_time c) (cy_fetched c) st")
  have run1: "is_running st1"
    using ingest_keeps_running [OF ing] Cons.prems(2) by simp
  have eoc: "end_of_cycle c st1 = st1"
    using Cons.prems(1) by (simp add: end_of_cycle_def)
  have rest: "\<forall>c \<in> set cs. \<not> cy_stop_called c"
    using Cons.prems(1) by simp
  have IH: "snd (polling_loop name tr (Some cb) st1 cs)
              = filter (\<lambda>r. success r \<and> record_count r > 0) (cycle_results name tr st1 cs)"
    by (rule Cons.IH [OF rest run1])
  have cbr: "cb result" using assms(1) by simp
  show ?case using Cons.prems(2) ing eoc IH cbr
    by (simp add: is_successful_def split_beta)
qed

text \<open>
  Claim C8, as amended. In a run of the polling loop with a registered callback that
  returns normally and with no call of \<^verbatim>\<open>stop()\<close>, the callback is invoked, in order, with
  the results of exactly those cycles whose ingestion succeeded and produced at least one
  record: a successful cycle with zero records and a failed cycle invoke no callback.
\<close>

theorem run_continuous_callbacks:
  assumes "\<forall>r. callback r" and "\<forall>c \<in> set cycles. \<not> cy_stop_called c"
  shows "snd (run_continuous name transform_data (Some callback) st cycles)
           = filter (\<lambda>r. success r \<and> record_count r > 0)
               (cycle_results name transform_data st cycles)"
proof -
  have "snd (polling_loop name transform_data (Some callback) (st\<lparr>is_running := True\<rparr>) cycles)
          = filter (\<lambda>r. success r \<and> record_count r > 0)
              (cycle_results name transform_data (st\<lparr>is_running := True\<rparr>) cycles)"
    by (rule polling_loop_calls [OF assms]) simp
  then show ?thesis
    by (simp add: run_continuous_def cycle_results_running)
qed


theorem run_continuous_callbacks_witness:
  "map cy_stop_called sample_cycles = [False, False, False] \<and>
   map success (cycle_results ''mbta_v3_rest'' Inr fresh_ingestor sample_cycles)
     = [False, True, True] \<and>
   map record_count (cycle_results ''mbta_v3_rest'' Inr fresh_ingestor sample_cycles)
     = [0, 0, 2] \<and>
   map data (snd (run_continuous ''mbta_v3_rest'' Inr (Some (\<lambda>_. True)) fresh_ingestor
                     sample_cycles))
     = [[1, 2]]"
proof -
  have cb: "\<forall>r::nat IngestionResult. (\<lambda>_. True) r" by simp
  have ns: "\<forall>c \<in> set sample_cycles. \<not> cy_stop_called c"
    by (simp add: sample_cycles_def)
  have res: "cycle_results ''mbta_v3_rest'' Inr fresh_ingestor sample_cycles =
     [\<lparr>success = False, data = [], ir_timestamp = 0, source = ''mbta_v3_rest'',
       record_count = 0, error_message = Some ''timeout''\<rparr>,
      \<lparr>success = True, data = [], ir_timestamp = seconds 10, source = ''mbta_v3_rest'',
       record_count = 0, error_message = None\<rparr>,
      \<lparr>success = True, data = [1, 2], ir_timestamp = seconds 20, source = ''mbta_v3_rest'',
       record_count = 2, error_message = None\<rparr>]"
    by (simp add: sample_cycles_def ingest_def ingest_failed_def fresh_ingestor_def)
  show ?thesis
    using run_continuous_callbacks [OF cb ns, of "''mbta_v3_rest''" Inr fresh_ingestor] res
    by (simp add: sample_cycles_def)
qed

text \<open>The claim as stated fails: a cycle whose fetch returns no records succeeds, and
  the callback is not invoked.\<close>

theorem run_continuous_zero_records_counterexample:
  "success (snd (ingest ''mbta_v3_rest'' Inr (cy_start_time empty_cycle)
                   (cy_fetched empty_cycle) fresh_ingestor)) \<and>
   snd (run_continuous ''mbta_v3_rest'' Inr (Some (\<lambda>_. True)) fresh_ingestor [empty_cycle]) = []"
  by (simp add: run_continuous_def empty_cycle_def ingest_def fresh_ingestor_def
        is_successful_def end_of_cycle_def)

subsection \<open>Route and stop summaries\<close>

lemma add_prediction_delays:
  "es_delays (stats_at (add_prediction k d m) r)
     = es_delays (stats_at m r) @ (if k = r \<and> d \<noteq> None \<and> d \<noteq> Some 0 then [the d] else [])"
  by (cases d) (auto simp: add_prediction_def stats_at_def Let_def)

lemma fold_add_prediction_delays:
  "es_delays (stats_at (fold (\<lambda>p. add_prediction (key p) (p_delay p)) ps m) r)
     = es_delays (stats_at m r) @ nonzero_delays (filter (\<lambda>p. key p = r) ps)"
  by (induction ps arbitrary: m) (simp_all add: nonzero_delays_def add_prediction_delays)

lemma add_position_delays:
  "es_delays (stats_at (add_position k m) r) = es_delays (stats_at m r)"
  by (auto simp: add_position_def stats_at_def)

lemma add_alert_delays:
  "es_delays (stats_at (add_alert k m) r) = es_delays (stats_at m r)"
  by (auto simp: add_alert_def stats_at_def)

lemma fold_add_position_delays:
  "es_delays (stats_at (fold (\<lambda>v. add_position (v_route_id v)) vs m) r) = es_delays (stats_at m r)"
  by (induction vs arbitrary: m) (simp_all add: add_position_delays)

lemma fold_add_alert_delays:
  "es_delays (stats_at (fold add_alert ks m) r) = es_delays (stats_at m r)"
  by (induction ks arbitrary: m) (simp_all add: add_alert_delays)

lemma fold_alerts_delays:
  "es_delays (stats_at (fold (\<lambda>a. fold add_alert (affected a)) as m) r) = es_delays (stats_at m r)"
  by (induction as arbitrary: m) (simp_all add: fold_add_alert_delays)

lemma stats_at_empty: "es_delays (stats_at Map.empty r) = []"
  by (simp add: stats_at_def default_stats_def)

lemma route_stats_delays:
  "es_delays (stats_at (route_stats agg) r)
     = nonzero_delays (filter (\<lambda>p. p_route_id p = r) (agg_predictions agg))"
  by (simp add: route_stats_def Let_def fold_alerts_delays fold_add_position_delays
        fold_add_prediction_delays stats_at_empty)

lemma stop_stats_delays:
  "es_delays (stats_at (stop_stats agg) k)
     = nonzero_delays (filter (\<lambda>p. p_stop_id p = k) (agg_predictions agg))"
  by (simp add: stop_stats_def Let_def fold_alerts_delays fold_add_prediction_delays
        stats_at_empty)

lemma calculate_averages_delays: "sm_delays (calculate_averages s) = es_delays s"
  by (simp add: calculate_averages_def)

lemma calculate_averages_values:
  "(sm_avg_delay (calculate_averages s), sm_max_delay (calculate_averages s),
    sm_min_delay (calculate_averages s))
     = (if es_delays s = [] then (0, 0, 0)
        else (py_mean (es_delays s), py_max (es_delays s), py_min (es_delays s)))"
  by (simp add: calculate_averages_def)

lemma nonzero_delays_empty:
  "(nonzero_delays ps = []) = (\<forall>p \<in> set ps. p_delay p = None \<or> p_delay p = Some 0)"
  by (auto simp: nonzero_delays_def filter_empty_conv)

lemma summary_of_stats:
  assumes "(map_option calculate_averages \<circ> m) k = Some s"
  shows "s = calculate_averages (stats_at m k)"
  using assms by (cases "m k") (simp_all add: stats_at_def)

text \<open>
  Claim C9. In the summary of a route and in the summary of a stop, the \<^verbatim>\<open>delays\<close> list
  holds the delays of the predictions of that route or stop that are neither \<^verbatim>\<open>None\<close> nor
  zero, in order, and the average, maximum and minimum are computed from that list, with
  0 for each when it is empty. So when every prediction of the route or stop carries the
  delay 0 or no delay at all, the list is empty and the three values are 0, the same as
  for a route or stop without delay data.
\<close>

theorem summaries_skip_zero_delays:
  "(get_route_summary agg r = Some rs \<longrightarrow>
      sm_delays rs = nonzero_delays (filter (\<lambda>p. p_route_id p = r) (agg_predictions agg)) \<and>
      (sm_avg_delay rs, sm_max_delay rs, sm_min_delay rs)
        = (if sm_delays rs = [] then (0, 0, 0)
           else (py_mean (sm_delays rs), py_max (sm_delays rs), py_min (sm_delays rs))) \<and>
      ((\<forall>p \<in> set (agg_predictions agg).
           p_route_id p = r \<longrightarrow> p_delay p = None \<or> p_delay p = Some 0) \<longrightarrow>
         sm_delays rs = [] \<and> sm_avg_delay rs = 0 \<and> sm_max_delay rs = 0 \<and> sm_min_delay rs = 0)) \<and>
   (get_stop_summary agg k = Some ks \<longrightarrow>
      sm_delays ks = nonzero_delays (filter (\<lambda>p. p_stop_id p = k) (agg_predictions agg)) \<and>
      (sm_avg_delay ks, sm_max_delay ks, sm_min_delay ks)
        = (if sm_delays ks = [] then (0, 0, 0)
           else (py_mean (sm_delays ks), py_max (sm_delays ks), py_min (sm_delays ks))) \<and>
      ((\<forall>p \<in> set (agg_predictions agg).
           p_stop_id p = k \<longrightarrow> p_delay p = None \<or> p_delay p = Some 0) \<longrightarrow>
         sm_delays ks = [] \<and> sm_avg_delay ks = 0 \<and> sm_max_delay ks = 0 \<and> sm_min_delay ks = 0))"
proof (intro conjI impI)
  assume route: "get_route_summary agg r = Some rs"
  have rs: "rs = calculate_averages (stats_at (route_stats agg) r)"
    using route unfolding get_route_summary_def by (rule summary_of_stats)
  show rd: "sm_delays rs = nonzero_delays (filter (\<lambda>p. p_route_id p = r) (agg_predictions agg))"
    by (simp add: rs calculate_averages_delays route_stats_delays)
  show rv: "(sm_avg_delay rs, sm_max_delay rs, sm_min_delay rs)
           = (if sm_delays rs = [] then (0, 0, 0)
              else (py_mean (sm_delays rs), py_max (sm_delays rs), py_min (sm_delays rs)))"
    unfolding rs calculate_averages_delays by (rule calculate_averages_values)
  assume "\<forall>p \<in> set (agg_predictions agg).
            p_route_id p = r \<longrightarrow> p_delay p = None \<or> p_delay p = Some 0"
  then have empty: "sm_delays rs = []"
    by (simp add: rd nonzero_delays_empty)
  then show "sm_delays rs = []" .
  show "sm_avg_delay rs = 0" "sm_max_delay rs = 0" "sm_min_delay rs = 0"
    using rv empty by simp_all
next
  assume stop: "get_stop_summary agg k = Some ks"
  have ks: "ks = calculate_averages (stats_at (stop_stats agg) k)"
    using stop unfolding get_stop_summary_def by (rule summary_of_stats)
  show kd: "sm_delays ks = nonzero_delays (filter (\<lambda>p. p_stop_id p = k) (agg_predictions agg))"
    by (simp add: ks calculate_averages_delays stop_stats_delays)
  show kv: "(sm_avg_delay ks, sm_max_delay ks, sm_min_delay ks)
           = (if sm_delays ks = [] then (0, 0, 0)
              else (py_mean (sm_delays ks), py_max (sm_delays ks), py_min (sm_delays ks)))"
    unfolding ks calculate_averages_delays by (rule calculate_averages_values)
  assume "\<forall>p \<in> set (agg_predictions agg).
            p_stop_id p = k \<longrightarrow> p_delay p = None \<or> p_delay p = Some 0"
  then have empty: "sm_delays ks = []"
    by (simp add: kd nonzero_delays_empty)
  then show "sm_delays ks = []" .
  show "sm_avg_delay ks = 0" "sm_max_delay ks = 0" "sm_min_delay ks = 0"
    using kv empty by simp_all
qed

theorem summaries_skip_zero_delays_witness:
  "get_route_summary on_time_aggregator ''Red''
     = Some \<lparr>sm_predictions = 2, sm_delays = [], sm_vehicle_positions = 0, sm_alerts = 0,
             sm_avg_delay = 0, sm_max_delay = 0, sm_min_delay = 0\<rparr> \<and>
   get_stop_summary on_time_aggregator ''stop_1''
     = Some \<lparr>sm_predictions = 2, sm_delays = [], sm_vehicle_positions = 0, sm_alerts = 0,
             sm_avg_delay = 0, sm_max_delay = 0, sm_min_delay = 0\<rparr> \<and>
   map p_delay (agg_predictions on_time_aggregator) = [Some 0, None] \<and>
   nonzero_delays (filter (\<lambda>p. p_route_id p = ''Red'') (agg_predictions on_time_aggregator)) = []"
proof -
  have preds: "agg_predictions on_time_aggregator
                 = [test_prediction ''1'' (Some 0), test_prediction ''1'' None]"
    by (simp add: on_time_aggregator_def process_def new_aggregator_def agg_get_def
          agg_predictions_def Let_def)
  have others: "agg_positions on_time_aggregator = [] \<and> agg_alerts on_time_aggregator = []"
    by (simp add: on_time_aggregator_def process_def new_aggregator_def agg_get_def
          agg_positions_def agg_alerts_def Let_def)
  have route: "get_route_summary on_time_aggregator ''Red''
     = Some \<lparr>sm_predictions = 2, sm_delays = [], sm_vehicle_positions = 0, sm_alerts = 0,
             sm_avg_delay = 0, sm_max_delay = 0, sm_min_delay = 0\<rparr>"
    by (simp add: get_route_summary_def route_stats_def preds others test_prediction_def
          add_prediction_def stats_at_def default_stats_def calculate_averages_def Let_def)
  have stop: "get_stop_summary on_time_aggregator ''stop_1''
     = Some \<lparr>sm_predictions = 2, sm_delays = [], sm_vehicle_positions = 0, sm_alerts = 0,
             sm_avg_delay = 0, sm_max_delay = 0, sm_min_delay = 0\<rparr>"
    by (simp add: get_stop_summary_def stop_stats_def preds others test_prediction_def
          add_prediction_def stats_at_def default_stats_def calculate_averages_def Let_def)
  have zero: "\<forall>p \<in> set (agg_predictions on_time_aggregator).
                p_route_id p = ''Red'' \<longrightarrow> p_delay p = None \<or> p_delay p = Some 0"
    by (simp add: preds test_prediction_def)
  show ?thesis
    using summaries_skip_zero_delays
            [where agg = on_time_aggregator and r = "''Red''" and k = "''stop_1''"
               and rs = "\<lparr>sm_predictions = 2, sm_delays = [], sm_vehicle_positions = 0,
                          sm_alerts = 0, sm_avg_delay = 0, sm_max_delay = 0, sm_min_delay = 0\<rparr>"
               and ks = "\<lparr>sm_predictions = 2, sm_delays = [], sm_vehicle_positions = 0,
                          sm_alerts = 0, sm_avg_delay = 0, sm_max_delay = 0, sm_min_delay = 0\<rparr>"]
          route stop zero
    by (simp add: preds test_prediction_def)
qed

subsection \<open>Batch storage\<close>

lemma failed_stores_le: "failed_stores ops ds s \<le> length ds"
proof (induction ds arbitrary: s)
  case Nil
  then show ?case by simp
next
  case (Cons d ds)
  obtain out s' where st: "store_item ops d s = (out, s')" by (cases "store_item ops d s")
  show ?case using Cons.IH [of s'] st by (cases out) simp_all
qed

lemma store_loop_counts:
  "store_loop ops ds a b s =
     (a + (length ds - failed_stores ops ds s), b + failed_stores ops ds s,
      session_after ops ds s)"
proof (induction ds arbitrary: a b s)
  case Nil
  then show ?case by simp
next
  case (Cons d ds)
  obtain out s' where st: "store_item ops d s = (out, s')" by (cases "store_item ops d s")
  show ?case using st failed_stores_le [of ops ds s']
    by (cases out) (simp_all add: Cons.IH Suc_diff_le)
qed

text \<open>
  Claim C10, as amended. For every batch stored through an acquired session, one
  ingestion-log row is handed to the log append; its status is "partial" exactly when at
  least one record failed to store and "success" otherwise, and it counts the records
  processed and failed. The outcome has success = true exactly when the log append and
  the closing of the session (its commit) both complete, however many records failed,
  every one of them included; then the outcome carries the total, the number of failed
  records as its errors count, and the remaining records as successful.
\<close>

theorem store_batch_outcome:
  assumes "store_batch ops (Inr s) elapsed_ms data_list source_type = (result, logged)"
  shows "\<exists>entry. logged = [entry] \<and>
           il_status entry
             = (if failed_stores ops data_list s = 0 then ''success'' else ''partial'') \<and>
           il_records_processed entry = length data_list \<and>
           il_records_failed entry = failed_stores ops data_list s \<and>
           br_success result
             = log_and_close_complete ops entry (session_after ops data_list s) \<and>
           (br_success result \<longrightarrow>
              br_total result = Some (length data_list) \<and>
              br_errors result = Some (failed_stores ops data_list s) \<and>
              br_successful result
                = Some (length data_list - failed_stores ops data_list s))"
  using assms
  by (auto simp: store_batch_def store_loop_counts Let_def log_and_close_complete_def
        batch_failed_def split: prod.splits sum.splits)


theorem store_batch_outcome_witness:
  "store_batch (sample_ops True False) (Inr []) 12
       [PredictionData sample_prediction, PredictionData (test_prediction ''1'' None)]
       ''mbta_v3_rest''
     = (\<lparr>br_success = True, br_total = Some 2, br_successful = Some 0, br_errors = Some 2,
         br_error = None\<rparr>,
        [\<lparr>il_source_type = ''mbta_v3_rest'', il_status = ''partial'',
          il_records_processed = 2, il_records_inserted = 0, il_records_updated = 0,
          il_records_failed = 2, il_processing_time_ms = 12, il_error_message = None\<rparr>]) \<and>
   failed_stores (sample_ops True False)
       [PredictionData sample_prediction, PredictionData (test_prediction ''1'' None)] [] = 2"
proof -
  have run: "store_batch (sample_ops True False) (Inr []) 12
       [PredictionData sample_prediction, PredictionData (test_prediction ''1'' None)]
       ''mbta_v3_rest''
     = (\<lparr>br_success = True, br_total = Some 2, br_successful = Some 0, br_errors = Some 2,
         br_error = None\<rparr>,
        [\<lparr>il_source_type = ''mbta_v3_rest'', il_status = ''partial'',
          il_records_processed = 2, il_records_inserted = 0, il_records_updated = 0,
          il_records_failed = 2, il_processing_time_ms = 12, il_error_message = None\<rparr>])"
    by (simp add: store_batch_def sample_ops_def Let_def)
  show ?thesis
    using store_batch_outcome [OF run] run by simp
qed

text \<open>The claim as stated fails: for a batch in which the per-record loop and the log
  append complete and no record fails, the commit that closes the session raises and the
  outcome has success = false.\<close>

theorem store_batch_close_counterexample:
  "store_loop (sample_ops False True) [PredictionData sample_prediction] 0 0 []
     = (1, 0, [''pred_1'']) \<and>
   snd (store_batch (sample_ops False True) (Inr []) 12
          [PredictionData sample_prediction] ''mbta_v3_rest'')
     = [\<lparr>il_source_type = ''mbta_v3_rest'', il_status = ''success'',
          il_records_processed = 1, il_records_inserted = 1, il_records_updated = 0,
          il_records_failed = 0, il_processing_time_ms = 12, il_error_message = None\<rparr>] \<and>
   fst (log_ingestion_op (sample_ops False True)
          \<lparr>il_source_type = ''mbta_v3_rest'', il_status = ''success'',
           il_records_processed = 1, il_records_inserted = 1, il_records_updated = 0,
           il_records_failed = 0, il_processing_time_ms = 12, il_error_message = None\<rparr>
          [''pred_1'']) = Inr () \<and>
   br_success (fst (store_batch (sample_ops False True) (Inr []) 12
                      [PredictionData sample_prediction] ''mbta_v3_rest'')) = False"
  by (simp add: store_batch_def sample_ops_def sample_prediction_def batch_failed_def Let_def)

end
